theory Spec2Isabelle
  imports Main "HOL-Library.Word"
begin

unbundle bit_operations_syntax

section \<open>Data model\<close>

subsection \<open>Tokens, claims and errors\<close>

text \<open>
  A \<^verbatim>\<open>jwt.SigningMethod\<close> is an interface value that the code only compares with
  \<^verbatim>\<open>!=\<close>; it is modelled by the name of the algorithm it stands for. The nil interface
  is one more comparable value (the empty name).
\<close>

type_synonym signing_method = string

text \<open>The raw claim set \<^verbatim>\<open>jwt.MapClaims\<close>: a JSON object.\<close>

datatype json = JNull | JBool bool | JNumber int | JString string | JArray "json list"

type_synonym MapClaims = "(string \<times> json) list"

text \<open>The fields of \<^verbatim>\<open>jwt.Token\<close> that the middlewares read.\<close>

record Token =
  Raw :: string
  Method :: signing_method
  Claims :: MapClaims
  Valid :: bool

text \<open>
  Modelled from the spec: the declarations of the package-level errors
  \<^verbatim>\<open>ErrNoTokenFound\<close>, \<^verbatim>\<open>ErrExpired\<close>, \<^verbatim>\<open>ErrIATInvalid\<close>, \<^verbatim>\<open>ErrNBFInvalid\<close> and
  \<^verbatim>\<open>ErrAlgoInvalid\<close> are not part of the source file, which only returns them. They
  are the spec's classified errors NoCredentialFound, Expired, IssuedAtInvalid,
  NotYetValid and AlgorithmMismatch: five distinct values of Go's \<^verbatim>\<open>error\<close>.

  The other values of \<^verbatim>\<open>error\<close> are those a decoder may return:
  \<open>ValidationError\<close> is a (non-nil) \<^verbatim>\<open>*jwt.ValidationError\<close> with its \<^verbatim>\<open>Errors\<close>
  bit field (a \<^verbatim>\<open>uint32\<close>); \<open>WrappedError\<close> is an error of another dynamic type that
  wraps a cause; \<open>OtherError\<close> is any other error, with its message.
\<close>

datatype error =
    ErrNoTokenFound
  | ErrExpired
  | ErrIATInvalid
  | ErrNBFInvalid
  | ErrAlgoInvalid
  | ValidationError "32 word"
  | WrappedError string error
  | OtherError string

text \<open>The bit flags of jwt-go (\<^verbatim>\<open>1 << iota\<close>, in the order of its declaration).\<close>

definition ValidationErrorExpired :: "32 word" where
  "ValidationErrorExpired = 16"

definition ValidationErrorIssuedAt :: "32 word" where
  "ValidationErrorIssuedAt = 32"

definition ValidationErrorNotValidYet :: "32 word" where
  "ValidationErrorNotValidYet = 128"

type_synonym Role = string

text \<open>
  Modelled from the spec: the declaration of \<^verbatim>\<open>AppClaims\<close> is not part of the
  source file; the spec gives it an account identifier and the roles, and the source
  reads \<^verbatim>\<open>claims.Roles\<close> as a slice of \<^verbatim>\<open>Role\<close>.
\<close>

record AppClaims =
  ID :: int
  Roles :: "Role list"

text \<open>The zero value of \<^verbatim>\<open>AppClaims\<close> (\<^verbatim>\<open>var c AppClaims\<close>).\<close>

definition zero_AppClaims :: AppClaims where
  "zero_AppClaims = \<lparr>ID = 0, Roles = []\<rparr>"

subsection \<open>Request context\<close>

text \<open>
  A \<^verbatim>\<open>context.Context\<close> is a chain of key-value pairs, the newest first;
  \<^verbatim>\<open>context.WithValue\<close> puts a pair in front and \<^verbatim>\<open>Value\<close> returns the first
  value stored under a key.
\<close>

datatype ctx_key = VerificationCtxKey | AccessClaimsCtxKey | OtherCtxKey string

datatype ctx_value =
    OutcomeVal "Token option" "error option"
  | ClaimsVal AppClaims
  | OtherVal string

type_synonym go_context = "(ctx_key \<times> ctx_value) list"

definition WithValue :: "go_context \<Rightarrow> ctx_key \<Rightarrow> ctx_value \<Rightarrow> go_context" where
  "WithValue ctx k v = (k, v) # ctx"

definition Value :: "go_context \<Rightarrow> ctx_key \<Rightarrow> ctx_value option" where
  "Value ctx k = map_of ctx k"

text \<open>
  Modelled from the spec: \<^verbatim>\<open>NewContext\<close> is not part of the source file. The spec's
  Context Carrier attaches the verification outcome (token, error) to the context
  under one well-known key.
\<close>

definition NewContext :: "go_context \<Rightarrow> Token option \<Rightarrow> error option \<Rightarrow> go_context" where
  "NewContext ctx t err = WithValue ctx VerificationCtxKey (OutcomeVal t err)"

text \<open>
  Modelled from the spec: \<^verbatim>\<open>TokenFromContext\<close> is not part of the source file. It
  retrieves the attached outcome, together with the token's raw claim set; when no
  outcome is attached it returns the zero values (no token, no claims, no error).
\<close>

definition TokenFromContext :: "go_context \<Rightarrow> Token option \<times> MapClaims \<times> error option" where
  "TokenFromContext ctx =
     (case Value ctx VerificationCtxKey of
        Some (OutcomeVal token err) \<Rightarrow>
          (token, (case token of None \<Rightarrow> [] | Some t \<Rightarrow> Claims t), err)
      | _ \<Rightarrow> (None, [], None))"

text \<open>
  Modelled from the spec: \<^verbatim>\<open>AppClaimsFromCtx\<close> is not part of the source file. The
  accessor returns the claims attached under the claims key, and an empty claim set
  when there are none.
\<close>

definition AppClaimsFromCtx :: "go_context \<Rightarrow> AppClaims" where
  "AppClaimsFromCtx ctx =
     (case Value ctx AccessClaimsCtxKey of
        Some (ClaimsVal c) \<Rightarrow> c
      | _ \<Rightarrow> zero_AppClaims)"

subsection \<open>Requests and responses\<close>

text \<open>
  The parts of \<^verbatim>\<open>http.Request\<close> behind the three credential channels, and its
  context. \<^verbatim>\<open>r.WithContext(ctx)\<close> is a copy of the request with the context replaced.
\<close>

record Request =
  URLQuery :: "(string \<times> string) list"
  ReqHeader :: "(string \<times> string) list"
  Cookies :: "(string \<times> string) list"
  Context :: go_context

definition WithContext :: "Request \<Rightarrow> go_context \<Rightarrow> Request" where
  "WithContext r ctx = r\<lparr>Context := ctx\<rparr>"

text \<open>
  What has been written to an \<^verbatim>\<open>http.ResponseWriter\<close>: the header map, the status
  code once \<^verbatim>\<open>WriteHeader\<close> has been called, and the body.
\<close>

record ResponseWriter =
  header :: "(string \<times> string) list"
  status :: "nat option"
  body :: string

definition header_Set :: "string \<Rightarrow> string \<Rightarrow> (string \<times> string) list \<Rightarrow> (string \<times> string) list" where
  "header_Set k v h = (k, v) # filter (\<lambda>kv. fst kv \<noteq> k) h"

definition WriteHeader :: "ResponseWriter \<Rightarrow> nat \<Rightarrow> ResponseWriter" where
  "WriteHeader w code = (if status w = None then w\<lparr>status := Some code\<rparr> else w)"

definition Write :: "ResponseWriter \<Rightarrow> string \<Rightarrow> ResponseWriter" where
  "Write w s =
     (let w' = (if status w = None then w\<lparr>status := Some 200\<rparr> else w)
      in w'\<lparr>body := body w' @ s\<rparr>)"

text \<open>\<^verbatim>\<open>http.StatusText\<close>, for the codes of interest; any other code has no text here.\<close>

definition StatusText :: "nat \<Rightarrow> string" where
  "StatusText code =
     (if code = 200 then ''OK''
      else if code = 401 then ''Unauthorized''
      else if code = 403 then ''Forbidden''
      else if code = 404 then ''Not Found''
      else if code = 500 then ''Internal Server Error''
      else [])"

text \<open>
  \<^verbatim>\<open>http.Error\<close>: sets the content type headers, writes the status code and then the
  message followed by a newline.
\<close>

definition http_Error :: "ResponseWriter \<Rightarrow> string \<Rightarrow> nat \<Rightarrow> ResponseWriter" where
  "http_Error w err code =
     (let h = header_Set ''X-Content-Type-Options'' ''nosniff''
                (header_Set ''Content-Type'' ''text/plain; charset=utf-8'' (header w));
          w1 = WriteHeader (w\<lparr>header := h\<rparr>) code
      in Write w1 (err @ [CHR 0x0A]))"

text \<open>
  A call either returns or panics (a nil pointer dereference). A handler takes the
  response writer and the request and leaves the response writer in a new state.
\<close>

datatype 'a result = Returned 'a | Panic

type_synonym Handler = "ResponseWriter \<Rightarrow> Request \<Rightarrow> ResponseWriter result"

text \<open>
  The receiver \<^verbatim>\<open>jwtAuth\<close>: the configured signing method, and the methods that the
  source file calls without defining them, taken as they are: the decoder
  (\<^verbatim>\<open>ja.Decode\<close>, which returns a token pointer and an error, either of which may be
  nil) and the three extraction strategies.
\<close>

record jwtAuth =
  signer :: signing_method
  Decode :: "string \<Rightarrow> Token option \<times> error option"
  TokenFromQuery :: "Request \<Rightarrow> string"
  TokenFromHeader :: "Request \<Rightarrow> string"
  TokenFromCookie :: "Request \<Rightarrow> string"

section \<open>The middlewares\<close>

subsection \<open>verifyRequest\<close>

text \<open>
  The extraction loop of \<^verbatim>\<open>verifyRequest\<close>. The state is the variable
  \<^verbatim>\<open>tokenStr\<close> and the number of strategies called so far: every iteration calls one
  strategy, assigns its result and breaks when it is not empty.
\<close>

fun findTokenLoop :: "Request \<Rightarrow> (Request \<Rightarrow> string) list \<Rightarrow> string \<Rightarrow> nat \<Rightarrow> string \<times> nat" where
  "findTokenLoop r [] tokenStr calls = (tokenStr, calls)"
| "findTokenLoop r (f # fns) tokenStr calls =
     (let tokenStr' = f r in
      if tokenStr' \<noteq> [] then (tokenStr', Suc calls)
      else findTokenLoop r fns tokenStr' (Suc calls))"

definition verifyRequest ::
  "jwtAuth \<Rightarrow> Request \<Rightarrow> (Request \<Rightarrow> string) list \<Rightarrow> (Token option \<times> error option) result" where
  "verifyRequest ja r findTokenFns =
     (let tokenStr = fst (findTokenLoop r findTokenFns [] 0) in
      if tokenStr = [] then Returned (None, Some ErrNoTokenFound)
      else
        (case Decode ja tokenStr of
           (token, Some err) \<Rightarrow>
             (case err of
                ValidationError verr_Errors \<Rightarrow>
                  if verr_Errors AND ValidationErrorExpired > 0 then Returned (token, Some ErrExpired)
                  else if verr_Errors AND ValidationErrorIssuedAt > 0 then Returned (token, Some ErrIATInvalid)
                  else if verr_Errors AND ValidationErrorNotValidYet > 0 then Returned (token, Some ErrNBFInvalid)
                  else Returned (token, Some err)
              | _ \<Rightarrow> Returned (token, Some err))
         | (token, None) \<Rightarrow>
             (case token of
                None \<Rightarrow> Panic
              | Some t \<Rightarrow>
                  if Method t \<noteq> signer ja then Returned (token, Some ErrAlgoInvalid)
                  else Returned (token, None))))"

subsection \<open>verify and Verify\<close>

definition verify :: "jwtAuth \<Rightarrow> (Request \<Rightarrow> string) list \<Rightarrow> Handler \<Rightarrow> Handler" where
  "verify ja findTokenFns next = (\<lambda>w r.
     (let ctx = Context r in
      case verifyRequest ja r findTokenFns of
        Panic \<Rightarrow> Panic
      | Returned (token, err) \<Rightarrow>
          (let ctx' = NewContext ctx token err
           in next w (WithContext r ctx'))))"

definition Verify :: "jwtAuth \<Rightarrow> Handler \<Rightarrow> Handler" where
  "Verify ja next = verify ja [TokenFromQuery ja, TokenFromHeader ja, TokenFromCookie ja] next"

subsection \<open>Authenticate\<close>

text \<open>
  \<^verbatim>\<open>c.ParseClaims(claims)\<close> is a method of \<^verbatim>\<open>AppClaims\<close> that the source file
  calls without defining it: it is a parameter, a function from the receiver and the
  raw claims to the updated receiver and an error.
\<close>

type_synonym parse_claims = "AppClaims \<Rightarrow> MapClaims \<Rightarrow> AppClaims \<times> error option"

definition Authenticate :: "parse_claims \<Rightarrow> jwtAuth \<Rightarrow> Handler \<Rightarrow> Handler" where
  "Authenticate ParseClaims ja next = (\<lambda>w r.
     (case TokenFromContext (Context r) of
        (token, claims, err) \<Rightarrow>
          if err \<noteq> None then Returned (http_Error w (StatusText 401) 401)
          else
            (case token of
               None \<Rightarrow> Returned (http_Error w (StatusText 401) 401)
             | Some t \<Rightarrow>
                 if \<not> Valid t then Returned (http_Error w (StatusText 401) 401)
                 else
                   (case ParseClaims zero_AppClaims claims of
                      (c, err') \<Rightarrow>
                        if err' \<noteq> None then Returned (http_Error w (StatusText 401) 401)
                        else
                          (let ctx = WithValue (Context r) AccessClaimsCtxKey (ClaimsVal c)
                           in next w (WithContext r ctx))))))"

text \<open>
  The conditions under which \<open>Authenticate\<close> takes one of its three rejecting
  branches: an error in the context, a nil or invalid token, a claims parse failure.
\<close>

definition Authenticate_rejects :: "parse_claims \<Rightarrow> Request \<Rightarrow> bool" where
  "Authenticate_rejects ParseClaims r =
     (case TokenFromContext (Context r) of
        (token, claims, err) \<Rightarrow>
          err \<noteq> None \<or> (case token of None \<Rightarrow> True | Some t \<Rightarrow> \<not> Valid t) \<or>
          snd (ParseClaims zero_AppClaims claims) \<noteq> None)"

subsection \<open>RequiresRole\<close>

fun hasRole :: "Role \<Rightarrow> Role list \<Rightarrow> bool" where
  "hasRole role [] = False"
| "hasRole role (r # roles) = (if r = role then True else hasRole role roles)"

definition RequiresRole :: "jwtAuth \<Rightarrow> Role \<Rightarrow> Handler \<Rightarrow> Handler" where
  "RequiresRole ja role next = (\<lambda>w r.
     (let claims = AppClaimsFromCtx (Context r) in
      if \<not> hasRole role (Roles claims) then Returned (http_Error w (StatusText 401) 401)
      else next w r))"

subsection \<open>The flags of a decode error\<close>

text \<open>
  Whether a decode error is a \<^verbatim>\<open>*jwt.ValidationError\<close> whose bit field has a bit in
  common with the given flag.
\<close>

definition hasFlag :: "error \<Rightarrow> 32 word \<Rightarrow> bool" where
  "hasFlag err flag = (case err of ValidationError e \<Rightarrow> e AND flag \<noteq> 0 | _ \<Rightarrow> False)"

section \<open>An example configuration\<close>

text \<open>
  Concrete values on which the theorems below are instantiated: strategies that read
  the \<open>jwt\<close> query parameter, the \<open>Authorization\<close> header and the \<open>jwt\<close> cookie, a
  decoder that knows a handful of credentials, a claims parser that reads the
  \<open>roles\<close> array, and a final handler that answers \<open>200\<close>.
\<close>

definition ex_TokenFromQuery :: "Request \<Rightarrow> string" where
  "ex_TokenFromQuery r = (case map_of (URLQuery r) ''jwt'' of Some v \<Rightarrow> v | None \<Rightarrow> [])"

definition ex_TokenFromHeader :: "Request \<Rightarrow> string" where
  "ex_TokenFromHeader r =
     (case map_of (ReqHeader r) ''Authorization'' of
        Some v \<Rightarrow> if take 7 v = ''Bearer '' then drop 7 v else []
      | None \<Rightarrow> [])"

definition ex_TokenFromCookie :: "Request \<Rightarrow> string" where
  "ex_TokenFromCookie r = (case map_of (Cookies r) ''jwt'' of Some v \<Rightarrow> v | None \<Rightarrow> [])"

definition ex_token :: "string \<Rightarrow> signing_method \<Rightarrow> bool \<Rightarrow> Token" where
  "ex_token raw alg ok =
     \<lparr>Raw = raw, Method = alg,
      Claims = [(''id'', JNumber 7), (''roles'', JArray [JString ''admin''])],
      Valid = ok\<rparr>"

definition ex_Decode :: "string \<Rightarrow> Token option \<times> error option" where
  "ex_Decode s =
     (if s = ''good'' then (Some (ex_token s ''HS256'' True), None)
      else if s = ''none-alg'' then (Some (ex_token s ''none'' True), None)
      else if s = ''old'' then (Some (ex_token s ''HS256'' False), Some (ValidationError 48))
      else if s = ''early'' then (Some (ex_token s ''HS256'' False), Some (ValidationError 128))
      else if s = ''wrapped'' then
        (Some (ex_token s ''HS256'' False), Some (WrappedError ''decode'' (ValidationError 16)))
      else (None, Some (ValidationError 1)))"

definition ex_ja :: jwtAuth where
  "ex_ja = \<lparr>signer = ''HS256'', Decode = ex_Decode, TokenFromQuery = ex_TokenFromQuery,
            TokenFromHeader = ex_TokenFromHeader, TokenFromCookie = ex_TokenFromCookie\<rparr>"

definition ex_fns :: "(Request \<Rightarrow> string) list" where
  "ex_fns = [ex_TokenFromQuery, ex_TokenFromHeader, ex_TokenFromCookie]"

definition ex_request :: "string \<Rightarrow> Request" where
  "ex_request bearer =
     \<lparr>URLQuery = [], ReqHeader = [(''Authorization'', ''Bearer '' @ bearer)], Cookies = [],
      Context = []\<rparr>"

definition ex_ParseClaims :: parse_claims where
  "ex_ParseClaims c claims =
     (case map_of claims ''roles'' of
        Some (JArray js) \<Rightarrow>
          (c\<lparr>Roles := concat (map (\<lambda>j. case j of JString s \<Rightarrow> [s] | _ \<Rightarrow> []) js)\<rparr>, None)
      | _ \<Rightarrow> (c, Some (OtherError ''roles'')))"

definition ex_w :: ResponseWriter where
  "ex_w = \<lparr>header = [], status = None, body = []\<rparr>"

definition ex_next :: Handler where
  "ex_next w r = Returned (Write (WriteHeader w 200) ''ok'')"

section \<open>The extraction loop\<close>

lemma findTokenLoop_all_empty:
  "\<forall>f\<in>set fns. f r = [] \<Longrightarrow> findTokenLoop r fns [] n = ([], n + length fns)"
  by (induction fns arbitrary: n) simp_all

lemma findTokenLoop_first:
  "\<forall>g\<in>set pre. g r = [] \<Longrightarrow> f r \<noteq> [] \<Longrightarrow>
     findTokenLoop r (pre @ f # post) s n = (f r, Suc (n + length pre))"
  by (induction pre arbitrary: s n) simp_all

lemma ex_bearer: "ex_TokenFromHeader (ex_request s) = s"
  by (simp add: ex_TokenFromHeader_def ex_request_def)

lemma ex_no_query: "ex_TokenFromQuery (ex_request s) = []"
  by (simp add: ex_TokenFromQuery_def ex_request_def)

lemma ex_no_cookie: "ex_TokenFromCookie (ex_request s) = []"
  by (simp add: ex_TokenFromCookie_def ex_request_def)

lemma ex_located:
  "fst (findTokenLoop (ex_request s) ex_fns [] 0) = s"
  by (simp add: ex_fns_def ex_bearer ex_no_query ex_no_cookie Let_def)

section \<open>The Verifier\<close>

text \<open>
  C1. When the decoder fails on the located credential, the decode error is classified
  in priority order: the expired flag gives \<open>ErrExpired\<close>, else the issued-at flag
  gives \<open>ErrIATInvalid\<close>, else the not-valid-yet flag gives \<open>ErrNBFInvalid\<close>, and a
  decode error with none of these flags is the outcome's error as it is. In each case
  the outcome keeps the token that the decoder returned with the error.
\<close>

theorem verifyRequest_classifies_decode_error:
  assumes "fst (findTokenLoop r fns [] 0) \<noteq> []"
      and "Decode ja (fst (findTokenLoop r fns [] 0)) = (token, Some err)"
  shows "verifyRequest ja r fns = Returned (token, Some
           (if hasFlag err ValidationErrorExpired then ErrExpired
            else if hasFlag err ValidationErrorIssuedAt then ErrIATInvalid
            else if hasFlag err ValidationErrorNotValidYet then ErrNBFInvalid
            else err))"
  using assms
  by (cases err) (simp_all add: verifyRequest_def hasFlag_def word_neq_0_conv Let_def)

text \<open>
  An expired token whose issued-at flag is set as well (flags 16 and 32) is reported
  as expired, with the decoder's token.
\<close>

theorem verifyRequest_classifies_decode_error_witness:
  "fst (findTokenLoop (ex_request ''old'') ex_fns [] 0) \<noteq> [] \<and>
   Decode ex_ja (fst (findTokenLoop (ex_request ''old'') ex_fns [] 0))
     = (Some (ex_token ''old'' ''HS256'' False), Some (ValidationError 48)) \<and>
   hasFlag (ValidationError 48) ValidationErrorExpired \<and>
   hasFlag (ValidationError 48) ValidationErrorIssuedAt \<and>
   verifyRequest ex_ja (ex_request ''old'') ex_fns
     = Returned (Some (ex_token ''old'' ''HS256'' False), Some ErrExpired)"
proof -
  have loc: "fst (findTokenLoop (ex_request ''old'') ex_fns [] 0) \<noteq> []"
    by (simp add: ex_located)
  have dec: "Decode ex_ja (fst (findTokenLoop (ex_request ''old'') ex_fns [] 0))
     = (Some (ex_token ''old'' ''HS256'' False), Some (ValidationError 48))"
    by (simp add: ex_located ex_ja_def ex_Decode_def)
  have fl: "hasFlag (ValidationError 48) ValidationErrorExpired"
    "hasFlag (ValidationError 48) ValidationErrorIssuedAt"
    by (simp_all add: hasFlag_def ValidationErrorExpired_def ValidationErrorIssuedAt_def)
  from verifyRequest_classifies_decode_error [OF loc dec] loc dec fl
  show ?thesis by simp
qed

text \<open>
  C2. When every configured strategy returns the empty string, and in particular when
  no strategy is configured, the loop ends with the empty string (a string, not an
  error) after calling every strategy, and \<open>verifyRequest\<close> then returns no token
  with \<open>ErrNoTokenFound\<close>, whatever the decoder is.
\<close>

theorem verifyRequest_no_token_found:
  assumes "\<forall>f\<in>set fns. f r = []"
  shows "findTokenLoop r fns [] 0 = ([], length fns) \<and>
         verifyRequest ja r fns = Returned (None, Some ErrNoTokenFound) \<and>
         verifyRequest ja r [] = Returned (None, Some ErrNoTokenFound)"
proof -
  have "findTokenLoop r fns [] 0 = ([], length fns)"
    using findTokenLoop_all_empty [OF assms, of 0] by simp
  then show ?thesis
    by (simp add: verifyRequest_def)
qed

text \<open>A request with no credential in any of the three channels.\<close>

theorem verifyRequest_no_token_found_witness:
  "ex_TokenFromQuery ((ex_request [])\<lparr>ReqHeader := []\<rparr>) = [] \<and>
   ex_TokenFromHeader ((ex_request [])\<lparr>ReqHeader := []\<rparr>) = [] \<and>
   ex_TokenFromCookie ((ex_request [])\<lparr>ReqHeader := []\<rparr>) = [] \<and>
   findTokenLoop ((ex_request [])\<lparr>ReqHeader := []\<rparr>) ex_fns [] 0 = ([], 3) \<and>
   verifyRequest ex_ja ((ex_request [])\<lparr>ReqHeader := []\<rparr>) ex_fns
     = Returned (None, Some ErrNoTokenFound)"
proof -
  have h: "\<forall>f\<in>set ex_fns. f ((ex_request [])\<lparr>ReqHeader := []\<rparr>) = []"
    by (simp add: ex_fns_def ex_TokenFromQuery_def ex_TokenFromHeader_def
        ex_TokenFromCookie_def ex_request_def)
  have "length ex_fns = 3"
    by (simp add: ex_fns_def)
  with verifyRequest_no_token_found [OF h, of ex_ja] h show ?thesis
    by (simp add: ex_fns_def)
qed

text \<open>
  C4. When the located credential decodes without error into a token, the outcome is
  that token with \<open>ErrAlgoInvalid\<close> if the token's signing method differs from the
  configured one, and that token with no error otherwise; so the outcome has no error
  only when the two methods are equal.
\<close>

theorem verifyRequest_checks_signing_method:
  assumes "fst (findTokenLoop r fns [] 0) \<noteq> []"
      and "Decode ja (fst (findTokenLoop r fns [] 0)) = (Some t, None)"
  shows "verifyRequest ja r fns =
           Returned (Some t, if Method t \<noteq> signer ja then Some ErrAlgoInvalid else None) \<and>
         (verifyRequest ja r fns = Returned (Some t, None) \<longleftrightarrow> Method t = signer ja)"
  using assms by (simp add: verifyRequest_def Let_def)

text \<open>A credential that decodes without error under the algorithm \<open>none\<close>.\<close>

theorem verifyRequest_checks_signing_method_witness:
  "fst (findTokenLoop (ex_request ''none-alg'') ex_fns [] 0) \<noteq> [] \<and>
   Decode ex_ja (fst (findTokenLoop (ex_request ''none-alg'') ex_fns [] 0))
     = (Some (ex_token ''none-alg'' ''none'' True), None) \<and>
   Method (ex_token ''none-alg'' ''none'' True) \<noteq> signer ex_ja \<and>
   verifyRequest ex_ja (ex_request ''none-alg'') ex_fns
     = Returned (Some (ex_token ''none-alg'' ''none'' True), Some ErrAlgoInvalid)"
proof -
  have loc: "fst (findTokenLoop (ex_request ''none-alg'') ex_fns [] 0) \<noteq> []"
    by (simp add: ex_located)
  have dec: "Decode ex_ja (fst (findTokenLoop (ex_request ''none-alg'') ex_fns [] 0))
     = (Some (ex_token ''none-alg'' ''none'' True), None)"
    by (simp add: ex_located ex_ja_def ex_Decode_def)
  have ne: "Method (ex_token ''none-alg'' ''none'' True) \<noteq> signer ex_ja"
    by (simp add: ex_token_def ex_ja_def)
  from verifyRequest_checks_signing_method [OF loc dec] loc dec ne
  show ?thesis by simp
qed

text \<open>
  C9. Only a decode error of the type \<^verbatim>\<open>*jwt.ValidationError\<close> is inspected: a decode
  error of any other type is the outcome's error unchanged, next to the decoder's
  token, also when it wraps a validation error that has a time flag.
\<close>

theorem verifyRequest_other_error_unchanged:
  assumes "fst (findTokenLoop r fns [] 0) \<noteq> []"
      and "Decode ja (fst (findTokenLoop r fns [] 0)) = (token, Some err)"
      and "\<forall>e. err \<noteq> ValidationError e"
  shows "verifyRequest ja r fns = Returned (token, Some err)"
  using assms by (cases err) (simp_all add: verifyRequest_def Let_def)

text \<open>An error of another type that wraps an expired-token validation error.\<close>

theorem verifyRequest_other_error_unchanged_witness:
  "fst (findTokenLoop (ex_request ''wrapped'') ex_fns [] 0) \<noteq> [] \<and>
   Decode ex_ja (fst (findTokenLoop (ex_request ''wrapped'') ex_fns [] 0))
     = (Some (ex_token ''wrapped'' ''HS256'' False),
        Some (WrappedError ''decode'' (ValidationError 16))) \<and>
   (\<forall>e. WrappedError ''decode'' (ValidationError 16) \<noteq> ValidationError e) \<and>
   hasFlag (ValidationError 16) ValidationErrorExpired \<and>
   verifyRequest ex_ja (ex_request ''wrapped'') ex_fns
     = Returned (Some (ex_token ''wrapped'' ''HS256'' False),
                 Some (WrappedError ''decode'' (ValidationError 16)))"
proof -
  have loc: "fst (findTokenLoop (ex_request ''wrapped'') ex_fns [] 0) \<noteq> []"
    by (simp add: ex_located)
  have dec: "Decode ex_ja (fst (findTokenLoop (ex_request ''wrapped'') ex_fns [] 0))
     = (Some (ex_token ''wrapped'' ''HS256'' False),
        Some (WrappedError ''decode'' (ValidationError 16)))"
    by (simp add: ex_located ex_ja_def ex_Decode_def)
  have ty: "\<forall>e. WrappedError ''decode'' (ValidationError 16) \<noteq> ValidationError e"
    by simp
  have fl: "hasFlag (ValidationError 16) ValidationErrorExpired"
    by (simp add: hasFlag_def ValidationErrorExpired_def)
  from verifyRequest_other_error_unchanged [OF loc dec ty] loc dec fl
  show ?thesis by simp
qed

text \<open>
  C10. Whenever \<open>verifyRequest\<close> returns with no error, a credential was located, the
  returned token is the token that the decoder returned for it (with no error), and
  that token's signing method is the configured one: no outcome without an error has
  no token or another signing method.
\<close>

theorem verifyRequest_nil_error_invariant:
  assumes "verifyRequest ja r fns = Returned (token, None)"
  shows "\<exists>t. token = Some t \<and> fst (findTokenLoop r fns [] 0) \<noteq> [] \<and>
             Decode ja (fst (findTokenLoop r fns [] 0)) = (Some t, None) \<and>
             Method t = signer ja"
  using assms
  by (auto simp: verifyRequest_def Let_def
      split: if_splits prod.splits option.splits error.splits)

theorem verifyRequest_nil_error_invariant_witness:
  "verifyRequest ex_ja (ex_request ''good'') ex_fns
     = Returned (Some (ex_token ''good'' ''HS256'' True), None) \<and>
   (\<exists>t. Some (ex_token ''good'' ''HS256'' True) = Some t \<and>
        fst (findTokenLoop (ex_request ''good'') ex_fns [] 0) \<noteq> [] \<and>
        Decode ex_ja (fst (findTokenLoop (ex_request ''good'') ex_fns [] 0)) = (Some t, None) \<and>
        Method t = signer ex_ja)"
proof -
  have v: "verifyRequest ex_ja (ex_request ''good'') ex_fns
     = Returned (Some (ex_token ''good'' ''HS256'' True), None)"
    by (simp add: verifyRequest_def ex_located ex_ja_def ex_Decode_def ex_token_def)
  from verifyRequest_nil_error_invariant [OF v] v show ?thesis
    by blast
qed

section \<open>The Locator\<close>

lemma verifyRequest_first:
  assumes "\<forall>g\<in>set pre. g r = []" and "f r \<noteq> []"
  shows "verifyRequest ja r (pre @ f # post) = verifyRequest ja r [f]"
proof -
  have "findTokenLoop r (pre @ f # post) [] 0 = (f r, Suc (length pre))"
    using findTokenLoop_first [of pre r f post "[]" 0] assms by simp
  with assms(2) show ?thesis
    by (simp add: verifyRequest_def)
qed

lemma verifyRequest_receiver:
  "signer ja' = signer ja \<Longrightarrow> Decode ja' = Decode ja \<Longrightarrow>
     verifyRequest ja' r fns = verifyRequest ja r fns"
  by (simp add: verifyRequest_def Let_def split: prod.splits option.splits)

lemma Verify_locator_channels:
  "Verify ja next = verify ja [TokenFromQuery ja, TokenFromHeader ja, TokenFromCookie ja] next \<and>
   (TokenFromQuery ja r \<noteq> [] \<longrightarrow>
      findTokenLoop r [TokenFromQuery ja, TokenFromHeader ja, TokenFromCookie ja] [] 0
        = (TokenFromQuery ja r, 1) \<and>
      verifyRequest ja r [TokenFromQuery ja, TokenFromHeader ja, TokenFromCookie ja]
        = verifyRequest ja r [TokenFromQuery ja] \<and>
      Verify (ja\<lparr>TokenFromHeader := h, TokenFromCookie := c\<rparr>) next w r = Verify ja next w r) \<and>
   (TokenFromQuery ja r = [] \<and> TokenFromHeader ja r \<noteq> [] \<longrightarrow>
      findTokenLoop r [TokenFromQuery ja, TokenFromHeader ja, TokenFromCookie ja] [] 0
        = (TokenFromHeader ja r, 2) \<and>
      verifyRequest ja r [TokenFromQuery ja, TokenFromHeader ja, TokenFromCookie ja]
        = verifyRequest ja r [TokenFromHeader ja] \<and>
      Verify (ja\<lparr>TokenFromCookie := c\<rparr>) next w r = Verify ja next w r) \<and>
   (TokenFromQuery ja r = [] \<and> TokenFromHeader ja r = [] \<longrightarrow>
      findTokenLoop r [TokenFromQuery ja, TokenFromHeader ja, TokenFromCookie ja] [] 0
        = (TokenFromCookie ja r, 3) \<and>
      verifyRequest ja r [TokenFromQuery ja, TokenFromHeader ja, TokenFromCookie ja]
        = verifyRequest ja r [TokenFromCookie ja])"
proof -
  let ?Q = "TokenFromQuery ja" and ?H = "TokenFromHeader ja" and ?C = "TokenFromCookie ja"
  have def: "Verify ja next = verify ja [?Q, ?H, ?C] next"
    by (simp add: Verify_def)
  have q1: "findTokenLoop r [?Q, ?H, ?C] [] 0 = (?Q r, 1)" if "?Q r \<noteq> []"
    using that by simp
  have q2: "verifyRequest ja' r [?Q, h', c'] = verifyRequest ja r [?Q]"
    if "?Q r \<noteq> []" "signer ja' = signer ja" "Decode ja' = Decode ja" for ja' h' c'
    using verifyRequest_first [of "[]" r ?Q ja' "[h', c']"] that
    by (simp add: verifyRequest_receiver [of ja' ja])
  have q3: "Verify (ja\<lparr>TokenFromHeader := h, TokenFromCookie := c\<rparr>) next w r = Verify ja next w r"
    if "?Q r \<noteq> []"
    using q2 [OF that, of "ja\<lparr>TokenFromHeader := h, TokenFromCookie := c\<rparr>" h c]
      q2 [OF that, of ja ?H ?C]
    by (simp add: Verify_def verify_def)
  have h1: "findTokenLoop r [?Q, ?H, ?C] [] 0 = (?H r, 2)" if "?Q r = []" "?H r \<noteq> []"
    using that by simp
  have h2: "verifyRequest ja' r [?Q, ?H, c'] = verifyRequest ja r [?H]"
    if "?Q r = []" "?H r \<noteq> []" "signer ja' = signer ja" "Decode ja' = Decode ja" for ja' c'
    using verifyRequest_first [of "[?Q]" r ?H ja' "[c']"] that
    by (simp add: verifyRequest_receiver [of ja' ja])
  have h3: "Verify (ja\<lparr>TokenFromCookie := c\<rparr>) next w r = Verify ja next w r"
    if "?Q r = []" "?H r \<noteq> []"
    using h2 [OF that, of "ja\<lparr>TokenFromCookie := c\<rparr>" c] h2 [OF that, of ja ?C]
    by (simp add: Verify_def verify_def)
  have c1: "findTokenLoop r [?Q, ?H, ?C] [] 0 = (?C r, 3)" if "?Q r = []" "?H r = []"
    using that by (simp add: Let_def numeral_3_eq_3)
  have c2: "verifyRequest ja r [?Q, ?H, ?C] = verifyRequest ja r [?C]"
    if "?Q r = []" "?H r = []"
  proof -
    have "fst (findTokenLoop r [?Q, ?H, ?C] [] 0) = fst (findTokenLoop r [?C] [] 0)"
      using that by (simp add: Let_def)
    then show ?thesis
      by (simp add: verifyRequest_def)
  qed
  from def q1 q2 [of ja ?H ?C] q3 h1 h2 [of ja ?C] h3 c1 c2 show ?thesis
    by simp
qed

text \<open>
  Whatever the strategies are, \<open>verifyRequest\<close> decodes the credential that the loop
  ends with, and its outcome is the classification of what the decoder returns for
  that credential.
\<close>

lemma verifyRequest_located:
  assumes "fst (findTokenLoop r fns [] 0) = cred"
  shows "cred = [] \<Longrightarrow> verifyRequest ja r fns = Returned (None, Some ErrNoTokenFound)"
    and "cred \<noteq> [] \<Longrightarrow> Decode ja cred = (token, Some err) \<Longrightarrow>
           verifyRequest ja r fns = Returned (token, Some
             (if hasFlag err ValidationErrorExpired then ErrExpired
              else if hasFlag err ValidationErrorIssuedAt then ErrIATInvalid
              else if hasFlag err ValidationErrorNotValidYet then ErrNBFInvalid
              else err))"
    and "cred \<noteq> [] \<Longrightarrow> Decode ja cred = (Some t, None) \<Longrightarrow>
           verifyRequest ja r fns =
             Returned (Some t, if Method t \<noteq> signer ja then Some ErrAlgoInvalid else None)"
proof -
  show "cred = [] \<Longrightarrow> verifyRequest ja r fns = Returned (None, Some ErrNoTokenFound)"
    using assms by (simp add: verifyRequest_def)
  show "cred \<noteq> [] \<Longrightarrow> Decode ja cred = (token, Some err) \<Longrightarrow>
           verifyRequest ja r fns = Returned (token, Some
             (if hasFlag err ValidationErrorExpired then ErrExpired
              else if hasFlag err ValidationErrorIssuedAt then ErrIATInvalid
              else if hasFlag err ValidationErrorNotValidYet then ErrNBFInvalid
              else err))"
    using assms
    by (cases err) (simp_all add: verifyRequest_def hasFlag_def word_neq_0_conv Let_def)
  show "cred \<noteq> [] \<Longrightarrow> Decode ja cred = (Some t, None) \<Longrightarrow>
           verifyRequest ja r fns =
             Returned (Some t, if Method t \<noteq> signer ja then Some ErrAlgoInvalid else None)"
    using assms by (simp add: verifyRequest_def Let_def)
qed

lemma verify_outcome:
  "verifyRequest ja r fns = Returned (token, err) \<Longrightarrow>
     verify ja fns next w r = next w (WithContext r (NewContext (Context r) token err))"
  by (simp add: verify_def)

lemma Verify_located:
  "fst (findTokenLoop r [TokenFromQuery ja, TokenFromHeader ja, TokenFromCookie ja] [] 0)
     = (if TokenFromQuery ja r \<noteq> [] then TokenFromQuery ja r
        else if TokenFromHeader ja r \<noteq> [] then TokenFromHeader ja r
        else TokenFromCookie ja r)"
  by (simp add: Let_def)

text \<open>
  C3. \<open>Verify\<close> runs the loop on the strategies query parameter, header, cookie, in
  this order. When the query strategy yields a credential, it is the only strategy
  called and its credential is the one verified, whatever the header and cookie
  strategies are; when it yields none and the header strategy yields one, two
  strategies are called and the header's credential is the one verified, whatever the
  cookie strategy is; otherwise all three are called and the cookie strategy decides.
  The credential so located is the one that \<open>verifyRequest\<close> and \<open>Verify\<close> use: it is
  the credential given to the decoder, and the outcome that \<open>Verify\<close> hands to the next
  handler is the classification of what the decoder returns for it; when it is empty
  the outcome is \<open>ErrNoTokenFound\<close>.
\<close>

theorem Verify_locator_priority:
  "(Verify ja next = verify ja [TokenFromQuery ja, TokenFromHeader ja, TokenFromCookie ja] next \<and>
   (TokenFromQuery ja r \<noteq> [] \<longrightarrow>
      findTokenLoop r [TokenFromQuery ja, TokenFromHeader ja, TokenFromCookie ja] [] 0
        = (TokenFromQuery ja r, 1) \<and>
      verifyRequest ja r [TokenFromQuery ja, TokenFromHeader ja, TokenFromCookie ja]
        = verifyRequest ja r [TokenFromQuery ja] \<and>
      Verify (ja\<lparr>TokenFromHeader := h, TokenFromCookie := c\<rparr>) next w r = Verify ja next w r) \<and>
   (TokenFromQuery ja r = [] \<and> TokenFromHeader ja r \<noteq> [] \<longrightarrow>
      findTokenLoop r [TokenFromQuery ja, TokenFromHeader ja, TokenFromCookie ja] [] 0
        = (TokenFromHeader ja r, 2) \<and>
      verifyRequest ja r [TokenFromQuery ja, TokenFromHeader ja, TokenFromCookie ja]
        = verifyRequest ja r [TokenFromHeader ja] \<and>
      Verify (ja\<lparr>TokenFromCookie := c\<rparr>) next w r = Verify ja next w r) \<and>
   (TokenFromQuery ja r = [] \<and> TokenFromHeader ja r = [] \<longrightarrow>
      findTokenLoop r [TokenFromQuery ja, TokenFromHeader ja, TokenFromCookie ja] [] 0
        = (TokenFromCookie ja r, 3) \<and>
      verifyRequest ja r [TokenFromQuery ja, TokenFromHeader ja, TokenFromCookie ja]
        = verifyRequest ja r [TokenFromCookie ja])) \<and>
   (let cred = (if TokenFromQuery ja r \<noteq> [] then TokenFromQuery ja r
                else if TokenFromHeader ja r \<noteq> [] then TokenFromHeader ja r
                else TokenFromCookie ja r)
    in fst (findTokenLoop r [TokenFromQuery ja, TokenFromHeader ja, TokenFromCookie ja] [] 0)
         = cred \<and>
       (cred = [] \<longrightarrow>
          verifyRequest ja r [TokenFromQuery ja, TokenFromHeader ja, TokenFromCookie ja]
            = Returned (None, Some ErrNoTokenFound) \<and>
          Verify ja next w r
            = next w (WithContext r (NewContext (Context r) None (Some ErrNoTokenFound)))) \<and>
       (cred \<noteq> [] \<and> Decode ja cred = (token, Some err) \<longrightarrow>
          verifyRequest ja r [TokenFromQuery ja, TokenFromHeader ja, TokenFromCookie ja]
            = Returned (token, Some
                (if hasFlag err ValidationErrorExpired then ErrExpired
                 else if hasFlag err ValidationErrorIssuedAt then ErrIATInvalid
                 else if hasFlag err ValidationErrorNotValidYet then ErrNBFInvalid
                 else err)) \<and>
          Verify ja next w r
            = next w (WithContext r (NewContext (Context r) token (Some
                (if hasFlag err ValidationErrorExpired then ErrExpired
                 else if hasFlag err ValidationErrorIssuedAt then ErrIATInvalid
                 else if hasFlag err ValidationErrorNotValidYet then ErrNBFInvalid
                 else err))))) \<and>
       (cred \<noteq> [] \<and> Decode ja cred = (Some t, None) \<longrightarrow>
          verifyRequest ja r [TokenFromQuery ja, TokenFromHeader ja, TokenFromCookie ja]
            = Returned (Some t, if Method t \<noteq> signer ja then Some ErrAlgoInvalid else None) \<and>
          Verify ja next w r
            = next w (WithContext r (NewContext (Context r) (Some t)
                (if Method t \<noteq> signer ja then Some ErrAlgoInvalid else None)))))"
proof -
  let ?L = "[TokenFromQuery ja, TokenFromHeader ja, TokenFromCookie ja]"
  let ?cred = "if TokenFromQuery ja r \<noteq> [] then TokenFromQuery ja r
               else if TokenFromHeader ja r \<noteq> [] then TokenFromHeader ja r
               else TokenFromCookie ja r"
  have loc: "fst (findTokenLoop r ?L [] 0) = ?cred"
    by (rule Verify_located)
  have V: "Verify ja next w r = next w (WithContext r (NewContext (Context r) tk e))"
    if "verifyRequest ja r ?L = Returned (tk, e)" for tk e
    using verify_outcome [OF that, of "next" w] by (simp add: Verify_def)
  have e1: "verifyRequest ja r ?L = Returned (None, Some ErrNoTokenFound)" if "?cred = []"
    using verifyRequest_located(1) [OF loc that] .
  have e2: "verifyRequest ja r ?L = Returned (token, Some
                (if hasFlag err ValidationErrorExpired then ErrExpired
                 else if hasFlag err ValidationErrorIssuedAt then ErrIATInvalid
                 else if hasFlag err ValidationErrorNotValidYet then ErrNBFInvalid
                 else err))"
    if "?cred \<noteq> []" "Decode ja ?cred = (token, Some err)"
    using verifyRequest_located(2) [OF loc that] .
  have e3: "verifyRequest ja r ?L
      = Returned (Some t, if Method t \<noteq> signer ja then Some ErrAlgoInvalid else None)"
    if "?cred \<noteq> []" "Decode ja ?cred = (Some t, None)"
    using verifyRequest_located(3) [OF loc that] .
  have link: "fst (findTokenLoop r ?L [] 0) = ?cred \<and>
       (?cred = [] \<longrightarrow>
          verifyRequest ja r ?L = Returned (None, Some ErrNoTokenFound) \<and>
          Verify ja next w r
            = next w (WithContext r (NewContext (Context r) None (Some ErrNoTokenFound)))) \<and>
       (?cred \<noteq> [] \<and> Decode ja ?cred = (token, Some err) \<longrightarrow>
          verifyRequest ja r ?L
            = Returned (token, Some
                (if hasFlag err ValidationErrorExpired then ErrExpired
                 else if hasFlag err ValidationErrorIssuedAt then ErrIATInvalid
                 else if hasFlag err ValidationErrorNotValidYet then ErrNBFInvalid
                 else err)) \<and>
          Verify ja next w r
            = next w (WithContext r (NewContext (Context r) token (Some
                (if hasFlag err ValidationErrorExpired then ErrExpired
                 else if hasFlag err ValidationErrorIssuedAt then ErrIATInvalid
                 else if hasFlag err ValidationErrorNotValidYet then ErrNBFInvalid
                 else err))))) \<and>
       (?cred \<noteq> [] \<and> Decode ja ?cred = (Some t, None) \<longrightarrow>
          verifyRequest ja r ?L
            = Returned (Some t, if Method t \<noteq> signer ja then Some ErrAlgoInvalid else None) \<and>
          Verify ja next w r
            = next w (WithContext r (NewContext (Context r) (Some t)
                (if Method t \<noteq> signer ja then Some ErrAlgoInvalid else None))))"
    using loc e1 e2 e3 V [OF e1] V [OF e2] V [OF e3] by blast
  from Verify_locator_channels [of ja "next" r c h w] link show ?thesis
    unfolding Let_def by (rule conjI)
qed

text \<open>
  A request with the credential \<open>good\<close> in the query, \<open>none-alg\<close> in the header and
  \<open>old\<close> in the cookie: one strategy is called, \<open>good\<close> is the credential decoded, and
  the next handler receives the token of \<open>good\<close> with no error (the header's
  credential would give \<open>ErrAlgoInvalid\<close>, the cookie's \<open>ErrExpired\<close>).
\<close>

theorem Verify_locator_priority_witness:
  "TokenFromQuery ex_ja
     \<lparr>URLQuery = [(''jwt'', ''good'')], ReqHeader = [(''Authorization'', ''Bearer none-alg'')],
      Cookies = [(''jwt'', ''old'')], Context = []\<rparr> \<noteq> [] \<and>
   findTokenLoop
     \<lparr>URLQuery = [(''jwt'', ''good'')], ReqHeader = [(''Authorization'', ''Bearer none-alg'')],
      Cookies = [(''jwt'', ''old'')], Context = []\<rparr>
     [TokenFromQuery ex_ja, TokenFromHeader ex_ja, TokenFromCookie ex_ja] [] 0 = (''good'', 1) \<and>
   Verify (ex_ja\<lparr>TokenFromHeader := (\<lambda>r. ''early''), TokenFromCookie := (\<lambda>r. ''wrapped'')\<rparr>)
       ex_next ex_w
     \<lparr>URLQuery = [(''jwt'', ''good'')], ReqHeader = [(''Authorization'', ''Bearer none-alg'')],
      Cookies = [(''jwt'', ''old'')], Context = []\<rparr>
     = Verify ex_ja ex_next ex_w
     \<lparr>URLQuery = [(''jwt'', ''good'')], ReqHeader = [(''Authorization'', ''Bearer none-alg'')],
      Cookies = [(''jwt'', ''old'')], Context = []\<rparr> \<and>
   Decode ex_ja ''good'' = (Some (ex_token ''good'' ''HS256'' True), None) \<and>
   verifyRequest ex_ja
     \<lparr>URLQuery = [(''jwt'', ''good'')], ReqHeader = [(''Authorization'', ''Bearer none-alg'')],
      Cookies = [(''jwt'', ''old'')], Context = []\<rparr>
     [TokenFromQuery ex_ja, TokenFromHeader ex_ja, TokenFromCookie ex_ja]
     = Returned (Some (ex_token ''good'' ''HS256'' True), None) \<and>
   Verify ex_ja ex_next ex_w
     \<lparr>URLQuery = [(''jwt'', ''good'')], ReqHeader = [(''Authorization'', ''Bearer none-alg'')],
      Cookies = [(''jwt'', ''old'')], Context = []\<rparr>
     = ex_next ex_w
         (WithContext
            \<lparr>URLQuery = [(''jwt'', ''good'')],
             ReqHeader = [(''Authorization'', ''Bearer none-alg'')],
             Cookies = [(''jwt'', ''old'')], Context = []\<rparr>
            (NewContext [] (Some (ex_token ''good'' ''HS256'' True)) None))"
proof -
  let ?r = "\<lparr>URLQuery = [(''jwt'', ''good'')],
             ReqHeader = [(''Authorization'', ''Bearer none-alg'')],
             Cookies = [(''jwt'', ''old'')], Context = []\<rparr>"
  have q: "TokenFromQuery ex_ja ?r = ''good''"
    by (simp add: ex_ja_def ex_TokenFromQuery_def)
  then have ne: "TokenFromQuery ex_ja ?r \<noteq> []"
    by simp
  let ?t = "ex_token ''good'' ''HS256'' True"
  have dec: "Decode ex_ja ''good'' = (Some ?t, None)"
    by (simp add: ex_ja_def ex_Decode_def)
  have alg: "Method ?t = signer ex_ja"
    by (simp add: ex_token_def ex_ja_def)
  note inst = Verify_locator_priority
    [of ex_ja ex_next ?r "\<lambda>r. ''wrapped''" "\<lambda>r. ''early''" ex_w _ _ ?t]
  note link = inst [unfolded Let_def, THEN conjunct2]
  from link have
    "(if TokenFromQuery ex_ja ?r \<noteq> [] then TokenFromQuery ex_ja ?r
      else if TokenFromHeader ex_ja ?r \<noteq> [] then TokenFromHeader ex_ja ?r
      else TokenFromCookie ex_ja ?r) \<noteq> [] \<and>
     Decode ex_ja
       (if TokenFromQuery ex_ja ?r \<noteq> [] then TokenFromQuery ex_ja ?r
        else if TokenFromHeader ex_ja ?r \<noteq> [] then TokenFromHeader ex_ja ?r
        else TokenFromCookie ex_ja ?r) = (Some ?t, None) \<longrightarrow>
     verifyRequest ex_ja ?r [TokenFromQuery ex_ja, TokenFromHeader ex_ja, TokenFromCookie ex_ja]
       = Returned (Some ?t, if Method ?t \<noteq> signer ex_ja then Some ErrAlgoInvalid else None) \<and>
     Verify ex_ja ex_next ex_w ?r
       = ex_next ex_w (WithContext ?r (NewContext (Context ?r) (Some ?t)
           (if Method ?t \<noteq> signer ex_ja then Some ErrAlgoInvalid else None)))"
    by (rule conjunct2 [THEN conjunct2, THEN conjunct2])
  with q dec alg have u:
    "verifyRequest ex_ja ?r [TokenFromQuery ex_ja, TokenFromHeader ex_ja, TokenFromCookie ex_ja]
       = Returned (Some ?t, None)"
    "Verify ex_ja ex_next ex_w ?r
       = ex_next ex_w (WithContext ?r (NewContext [] (Some ?t) None))"
    by simp_all
  from inst ne have
    "findTokenLoop ?r [TokenFromQuery ex_ja, TokenFromHeader ex_ja, TokenFromCookie ex_ja] [] 0
       = (TokenFromQuery ex_ja ?r, 1)"
    by blast
  with q have l:
    "findTokenLoop ?r [TokenFromQuery ex_ja, TokenFromHeader ex_ja, TokenFromCookie ex_ja] [] 0
       = (''good'', 1)"
    by simp
  from inst ne have v:
    "Verify (ex_ja\<lparr>TokenFromHeader := (\<lambda>r. ''early''), TokenFromCookie := (\<lambda>r. ''wrapped'')\<rparr>)
       ex_next ex_w ?r = Verify ex_ja ex_next ex_w ?r"
    by blast
  from ne l v dec u show ?thesis
    by blast
qed

text \<open>
  C5. Whatever outcome \<open>verifyRequest\<close> returns, \<open>verify\<close> writes nothing itself: its
  effect is that of one call of the next handler, on the response writer as it was
  and on the request whose context has the outcome attached by \<open>NewContext\<close>. The same
  holds for \<open>Verify\<close>, which is \<open>verify\<close> on the three strategies.
\<close>

theorem verify_always_forwards:
  assumes "verifyRequest ja r fns = Returned (token, err)"
  shows "verify ja fns next w r = next w (WithContext r (NewContext (Context r) token err)) \<and>
         (fns = [TokenFromQuery ja, TokenFromHeader ja, TokenFromCookie ja] \<longrightarrow>
            Verify ja next w r = next w (WithContext r (NewContext (Context r) token err)))"
proof -
  have "verify ja fns next w r = next w (WithContext r (NewContext (Context r) token err))"
    using assms by (simp add: verify_def)
  then show ?thesis
    by (auto simp: Verify_def)
qed

text \<open>
  An expired credential: the outcome has the error \<open>ErrExpired\<close>, and the response is
  the next handler's \<open>200\<close>, written once.
\<close>

theorem verify_always_forwards_witness:
  "verifyRequest ex_ja (ex_request ''old'') ex_fns
     = Returned (Some (ex_token ''old'' ''HS256'' False), Some ErrExpired) \<and>
   ex_fns = [TokenFromQuery ex_ja, TokenFromHeader ex_ja, TokenFromCookie ex_ja] \<and>
   verify ex_ja ex_fns ex_next ex_w (ex_request ''old'')
     = ex_next ex_w (WithContext (ex_request ''old'')
         (NewContext (Context (ex_request ''old''))
            (Some (ex_token ''old'' ''HS256'' False)) (Some ErrExpired))) \<and>
   Verify ex_ja ex_next ex_w (ex_request ''old'')
     = Returned \<lparr>header = [], status = Some 200, body = ''ok''\<rparr>"
proof -
  have v: "verifyRequest ex_ja (ex_request ''old'') ex_fns
     = Returned (Some (ex_token ''old'' ''HS256'' False), Some ErrExpired)"
    by (simp add: verifyRequest_def ex_located ex_ja_def ex_Decode_def
        ValidationErrorExpired_def)
  have f: "ex_fns = [TokenFromQuery ex_ja, TokenFromHeader ex_ja, TokenFromCookie ex_ja]"
    by (simp add: ex_fns_def ex_ja_def)
  have n: "ex_next ex_w r = Returned \<lparr>header = [], status = Some 200, body = ''ok''\<rparr>" for r
    by (simp add: ex_next_def ex_w_def WriteHeader_def Write_def)
  from verify_always_forwards [OF v, of ex_next ex_w] v f n show ?thesis
    by simp
qed

text \<open>
  When the decoder never returns a nil token with a nil error, \<open>verifyRequest\<close> always
  returns an outcome, so that \<open>verify\<close> always forwards.
\<close>

lemma verifyRequest_returns:
  assumes "Decode ja (fst (findTokenLoop r fns [] 0)) \<noteq> (None, None)"
  shows "\<exists>token err. verifyRequest ja r fns = Returned (token, err)"
  using assms
  by (auto simp: verifyRequest_def Let_def split: prod.splits option.splits error.splits)

lemma verify_forwards_when_decoder_total:
  assumes "Decode ja (fst (findTokenLoop r fns [] 0)) \<noteq> (None, None)"
  shows "\<exists>token err. verify ja fns next w r
           = next w (WithContext r (NewContext (Context r) token err))"
proof -
  from verifyRequest_returns [OF assms] obtain token err
    where "verifyRequest ja r fns = Returned (token, err)" by blast
  then have "verify ja fns next w r = next w (WithContext r (NewContext (Context r) token err))"
    by (simp add: verify_def)
  then show ?thesis by blast
qed

text \<open>What \<open>NewContext\<close> attaches is what \<open>TokenFromContext\<close> retrieves.\<close>

lemma TokenFromContext_NewContext:
  "TokenFromContext (NewContext ctx token err)
     = (token, (case token of None \<Rightarrow> [] | Some t \<Rightarrow> Claims t), err)"
  by (simp add: TokenFromContext_def NewContext_def WithValue_def Value_def)

section \<open>The Authenticator\<close>

lemma http_Error_fresh:
  assumes "status w = None"
  shows "status (http_Error w msg code) = Some code"
    and "body (http_Error w msg code) = body w @ msg @ [CHR 0x0A]"
  using assms by (simp_all add: http_Error_def WriteHeader_def Write_def Let_def)

lemma StatusText_401: "StatusText 401 = ''Unauthorized''"
  by (simp add: StatusText_def)

text \<open>
  C6. \<open>Authenticate\<close> answers with \<open>http.Error\<close> of status 401, and does not call the
  next handler, exactly when the retrieval from the context reports an error, or the
  token is nil, or the token is not valid, or parsing the claims fails. Otherwise it
  calls the next handler on the request whose context has the parsed \<open>AppClaims\<close>
  attached under \<open>AccessClaimsCtxKey\<close>. On a response writer that has not been written
  to, the status of the rejection is 401.
\<close>

theorem Authenticate_rejects_or_forwards:
  assumes "TokenFromContext (Context r) = (token, claims, err)"
      and "ParseClaims zero_AppClaims claims = (c, perr)"
  shows "Authenticate ParseClaims ja next w r =
           (if err \<noteq> None \<or> token = None \<or> (\<exists>t. token = Some t \<and> \<not> Valid t) \<or> perr \<noteq> None
            then Returned (http_Error w (StatusText 401) 401)
            else next w (WithContext r
                   (WithValue (Context r) AccessClaimsCtxKey (ClaimsVal c)))) \<and>
         Value (WithValue (Context r) AccessClaimsCtxKey (ClaimsVal c)) AccessClaimsCtxKey
           = Some (ClaimsVal c) \<and>
         (status w = None \<longrightarrow> status (http_Error w (StatusText 401) 401) = Some 401)"
proof -
  have "Authenticate ParseClaims ja next w r =
           (if err \<noteq> None \<or> token = None \<or> (\<exists>t. token = Some t \<and> \<not> Valid t) \<or> perr \<noteq> None
            then Returned (http_Error w (StatusText 401) 401)
            else next w (WithContext r
                   (WithValue (Context r) AccessClaimsCtxKey (ClaimsVal c))))"
    using assms by (cases token) (simp_all add: Authenticate_def)
  moreover have "Value (WithValue (Context r) AccessClaimsCtxKey (ClaimsVal c)) AccessClaimsCtxKey
           = Some (ClaimsVal c)"
    by (simp add: Value_def WithValue_def)
  ultimately show ?thesis
    by (simp add: http_Error_fresh)
qed

text \<open>
  A request whose context carries a valid token with the role \<open>admin\<close> and no error
  is forwarded with the parsed claims; the next handler answers 200.
\<close>

theorem Authenticate_rejects_or_forwards_witness:
  "TokenFromContext (NewContext [] (Some (ex_token ''good'' ''HS256'' True)) None)
     = (Some (ex_token ''good'' ''HS256'' True), Claims (ex_token ''good'' ''HS256'' True), None) \<and>
   ex_ParseClaims zero_AppClaims (Claims (ex_token ''good'' ''HS256'' True))
     = (\<lparr>ID = 0, Roles = [''admin'']\<rparr>, None) \<and>
   Valid (ex_token ''good'' ''HS256'' True) \<and>
   Authenticate ex_ParseClaims ex_ja ex_next ex_w
       (WithContext (ex_request ''good'')
          (NewContext [] (Some (ex_token ''good'' ''HS256'' True)) None))
     = Returned \<lparr>header = [], status = Some 200, body = ''ok''\<rparr>"
proof -
  let ?t = "ex_token ''good'' ''HS256'' True"
  let ?r = "WithContext (ex_request ''good'') (NewContext [] (Some ?t) None)"
  have ctx: "Context ?r = NewContext [] (Some ?t) None"
    by (simp add: WithContext_def)
  have a: "TokenFromContext (Context ?r) = (Some ?t, Claims ?t, None)"
    by (simp add: ctx TokenFromContext_NewContext)
  have p: "ex_ParseClaims zero_AppClaims (Claims ?t) = (\<lparr>ID = 0, Roles = [''admin'']\<rparr>, None)"
    by (simp add: ex_ParseClaims_def ex_token_def zero_AppClaims_def)
  have v: "Valid ?t"
    by (simp add: ex_token_def)
  have n: "ex_next ex_w r = Returned \<lparr>header = [], status = Some 200, body = ''ok''\<rparr>" for r
    by (simp add: ex_next_def ex_w_def WriteHeader_def Write_def)
  from Authenticate_rejects_or_forwards
    [where ParseClaims = ex_ParseClaims and r = ?r and ja = ex_ja and w = ex_w, OF a p, of ex_next]
    v n
  have "Authenticate ex_ParseClaims ex_ja ex_next ex_w ?r
     = Returned \<lparr>header = [], status = Some 200, body = ''ok''\<rparr>"
    by simp
  with a p v ctx show ?thesis
    by simp
qed

section \<open>The Role Gate\<close>

lemma hasRole_set: "hasRole role roles \<longleftrightarrow> role \<in> set roles"
  by (induction roles) auto

lemma hasRole_index: "hasRole role roles \<longleftrightarrow> (\<exists>i<length roles. roles ! i = role)"
  by (auto simp: hasRole_set in_set_conv_nth)

text \<open>
  C7. \<open>RequiresRole\<close> calls the next handler on the unchanged request exactly when the
  required role is among the roles of the \<open>AppClaims\<close> of the context, and answers with
  \<open>http.Error\<close> of status 401 without calling it otherwise; \<open>hasRole\<close> holds exactly when
  some element of the slice equals the role. When no \<open>AppClaims\<close> is attached, the
  roles are empty and the request is rejected.
\<close>

theorem RequiresRole_membership:
  "RequiresRole ja role next w r =
     (if role \<in> set (Roles (AppClaimsFromCtx (Context r))) then next w r
      else Returned (http_Error w (StatusText 401) 401)) \<and>
   (hasRole role roles \<longleftrightarrow> (\<exists>i<length roles. roles ! i = role)) \<and>
   (Value (Context r) AccessClaimsCtxKey = None \<longrightarrow>
      Roles (AppClaimsFromCtx (Context r)) = [] \<and>
      RequiresRole ja role next w r = Returned (http_Error w (StatusText 401) 401))"
proof -
  have a: "RequiresRole ja role next w r =
     (if role \<in> set (Roles (AppClaimsFromCtx (Context r))) then next w r
      else Returned (http_Error w (StatusText 401) 401))"
    by (simp add: RequiresRole_def hasRole_set)
  have b: "Roles (AppClaimsFromCtx (Context r)) = []"
    if "Value (Context r) AccessClaimsCtxKey = None"
    using that by (simp add: AppClaimsFromCtx_def zero_AppClaims_def)
  from a b hasRole_index [of role roles] show ?thesis
    by simp
qed

text \<open>
  With the claims of role \<open>admin\<close> attached, the gate for \<open>admin\<close> forwards and the gate
  for \<open>editor\<close> rejects; with nothing attached, the gate for \<open>admin\<close> rejects.
\<close>

theorem RequiresRole_membership_witness:
  "Value (Context (ex_request ''good'')) AccessClaimsCtxKey = None \<and>
   RequiresRole ex_ja ''admin'' ex_next ex_w (ex_request ''good'')
     = Returned (http_Error ex_w ''Unauthorized'' 401) \<and>
   RequiresRole ex_ja ''admin'' ex_next ex_w
       (WithContext (ex_request ''good'')
          (WithValue [] AccessClaimsCtxKey (ClaimsVal \<lparr>ID = 7, Roles = [''admin'']\<rparr>)))
     = Returned \<lparr>header = [], status = Some 200, body = ''ok''\<rparr> \<and>
   RequiresRole ex_ja ''editor'' ex_next ex_w
       (WithContext (ex_request ''good'')
          (WithValue [] AccessClaimsCtxKey (ClaimsVal \<lparr>ID = 7, Roles = [''admin'']\<rparr>)))
     = Returned (http_Error ex_w ''Unauthorized'' 401)"
proof -
  let ?r = "WithContext (ex_request ''good'')
              (WithValue [] AccessClaimsCtxKey (ClaimsVal \<lparr>ID = 7, Roles = [''admin'']\<rparr>))"
  have e: "Value (Context (ex_request ''good'')) AccessClaimsCtxKey = None"
    by (simp add: ex_request_def Value_def)
  have c: "Roles (AppClaimsFromCtx (Context ?r)) = [''admin'']"
    by (simp add: WithContext_def WithValue_def Value_def AppClaimsFromCtx_def)
  have n: "ex_next ex_w r = Returned \<lparr>header = [], status = Some 200, body = ''ok''\<rparr>" for r
    by (simp add: ex_next_def ex_w_def WriteHeader_def Write_def)
  from RequiresRole_membership [of ex_ja "''admin''" ex_next ex_w "ex_request ''good''" "[]"] e
  have 1: "RequiresRole ex_ja ''admin'' ex_next ex_w (ex_request ''good'')
     = Returned (http_Error ex_w ''Unauthorized'' 401)"
    by (simp add: StatusText_401)
  from RequiresRole_membership [of ex_ja "''admin''" ex_next ex_w ?r "[]"] c n
  have 2: "RequiresRole ex_ja ''admin'' ex_next ex_w ?r
     = Returned \<lparr>header = [], status = Some 200, body = ''ok''\<rparr>"
    by simp
  from RequiresRole_membership [of ex_ja "''editor''" ex_next ex_w ?r "[]"] c
  have 3: "RequiresRole ex_ja ''editor'' ex_next ex_w ?r
     = Returned (http_Error ex_w ''Unauthorized'' 401)"
    by (simp add: StatusText_401)
  from e 1 2 3 show ?thesis
    by blast
qed

section \<open>The rejection response\<close>

lemma Authenticate_rejection:
  assumes "Authenticate_rejects ParseClaims r"
  shows "Authenticate ParseClaims ja next w r = Returned (http_Error w ''Unauthorized'' 401)"
  using assms
  by (auto simp: Authenticate_rejects_def Authenticate_def StatusText_401
      split: prod.splits option.splits)

lemma RequiresRole_rejection:
  assumes "\<not> hasRole role (Roles (AppClaimsFromCtx (Context r)))"
  shows "RequiresRole ja role next w r = Returned (http_Error w ''Unauthorized'' 401)"
  using assms by (simp add: RequiresRole_def StatusText_401)

lemma Authenticate_rejects_causes:
  assumes "TokenFromContext (Context r) = (token, claims, err)"
  shows "err \<noteq> None \<Longrightarrow> Authenticate_rejects ParseClaims r"
    and "token = None \<Longrightarrow> Authenticate_rejects ParseClaims r"
    and "token = Some t \<Longrightarrow> \<not> Valid t \<Longrightarrow> Authenticate_rejects ParseClaims r"
    and "snd (ParseClaims zero_AppClaims claims) \<noteq> None \<Longrightarrow> Authenticate_rejects ParseClaims r"
  using assms by (simp_all add: Authenticate_rejects_def)

text \<open>
  C8. Any two rejections write the same response, whatever made \<open>Authenticate\<close> reject
  (an error of any kind in the context, a nil or invalid token, a claims parse failure)
  and whatever role \<open>RequiresRole\<close> missed: each is \<open>http.Error\<close> with the text of
  status 401, which depends on nothing but the response writer. On a response writer
  that has not been written to, it is the status 401 and the body \<open>Unauthorized\<close>
  followed by a newline.
\<close>

theorem rejection_response_uniform:
  assumes "Authenticate_rejects ParseClaims r1"
      and "Authenticate_rejects ParseClaims' r2"
      and "\<not> hasRole role (Roles (AppClaimsFromCtx (Context r3)))"
      and "\<not> hasRole role' (Roles (AppClaimsFromCtx (Context r4)))"
  shows "Authenticate ParseClaims ja nextA w r1 = Authenticate ParseClaims' ja nextB w r2 \<and>
         Authenticate ParseClaims ja nextA w r1 = RequiresRole ja role nextC w r3 \<and>
         RequiresRole ja role nextC w r3 = RequiresRole ja role' nextD w r4 \<and>
         Authenticate ParseClaims ja nextA w r1 = Returned (http_Error w ''Unauthorized'' 401) \<and>
         (status w = None \<longrightarrow>
            status (http_Error w ''Unauthorized'' 401) = Some 401 \<and>
            body (http_Error w ''Unauthorized'' 401) = body w @ ''Unauthorized'' @ [CHR 0x0A])"
  using assms
  by (simp add: Authenticate_rejection RequiresRole_rejection http_Error_fresh)

text \<open>
  An expired token, a missing credential, a request without claims and a request
  with the role \<open>admin\<close> at the gate for \<open>editor\<close>: four times the same response.
\<close>

theorem rejection_response_uniform_witness:
  "Authenticate_rejects ex_ParseClaims
     (WithContext (ex_request ''old'')
        (NewContext [] (Some (ex_token ''old'' ''HS256'' False)) (Some ErrExpired))) \<and>
   Authenticate_rejects ex_ParseClaims
     (WithContext (ex_request []) (NewContext [] None (Some ErrNoTokenFound))) \<and>
   \<not> hasRole ''admin'' (Roles (AppClaimsFromCtx (Context (ex_request ''good'')))) \<and>
   \<not> hasRole ''editor'' (Roles (AppClaimsFromCtx (Context
       (WithContext (ex_request ''good'')
          (WithValue [] AccessClaimsCtxKey (ClaimsVal \<lparr>ID = 7, Roles = [''admin'']\<rparr>)))))) \<and>
   Authenticate ex_ParseClaims ex_ja ex_next ex_w
     (WithContext (ex_request ''old'')
        (NewContext [] (Some (ex_token ''old'' ''HS256'' False)) (Some ErrExpired)))
     = Authenticate ex_ParseClaims ex_ja ex_next ex_w
         (WithContext (ex_request []) (NewContext [] None (Some ErrNoTokenFound))) \<and>
   Authenticate ex_ParseClaims ex_ja ex_next ex_w
     (WithContext (ex_request ''old'')
        (NewContext [] (Some (ex_token ''old'' ''HS256'' False)) (Some ErrExpired)))
     = RequiresRole ex_ja ''admin'' ex_next ex_w (ex_request ''good'') \<and>
   RequiresRole ex_ja ''admin'' ex_next ex_w (ex_request ''good'')
     = RequiresRole ex_ja ''editor'' ex_next ex_w
         (WithContext (ex_request ''good'')
            (WithValue [] AccessClaimsCtxKey (ClaimsVal \<lparr>ID = 7, Roles = [''admin'']\<rparr>))) \<and>
   Authenticate ex_ParseClaims ex_ja ex_next ex_w
     (WithContext (ex_request ''old'')
        (NewContext [] (Some (ex_token ''old'' ''HS256'' False)) (Some ErrExpired)))
     = Returned
         \<lparr>header = [(''X-Content-Type-Options'', ''nosniff''),
                    (''Content-Type'', ''text/plain; charset=utf-8'')],
          status = Some 401, body = ''Unauthorized'' @ [CHR 0x0A]\<rparr>"
proof -
  let ?r1 = "WithContext (ex_request ''old'')
        (NewContext [] (Some (ex_token ''old'' ''HS256'' False)) (Some ErrExpired))"
  let ?r2 = "WithContext (ex_request []) (NewContext [] None (Some ErrNoTokenFound))"
  let ?r3 = "ex_request ''good''"
  let ?r4 = "WithContext (ex_request ''good'')
          (WithValue [] AccessClaimsCtxKey (ClaimsVal \<lparr>ID = 7, Roles = [''admin'']\<rparr>))"
  have a1: "Authenticate_rejects ex_ParseClaims ?r1"
    by (simp add: Authenticate_rejects_def WithContext_def TokenFromContext_NewContext)
  have a2: "Authenticate_rejects ex_ParseClaims ?r2"
    by (simp add: Authenticate_rejects_def WithContext_def TokenFromContext_NewContext)
  have a3: "\<not> hasRole ''admin'' (Roles (AppClaimsFromCtx (Context ?r3)))"
    by (simp add: ex_request_def AppClaimsFromCtx_def Value_def zero_AppClaims_def)
  have a4: "\<not> hasRole ''editor'' (Roles (AppClaimsFromCtx (Context ?r4)))"
    by (simp add: WithContext_def WithValue_def AppClaimsFromCtx_def Value_def)
  have e: "http_Error ex_w ''Unauthorized'' 401 =
     \<lparr>header = [(''X-Content-Type-Options'', ''nosniff''),
                (''Content-Type'', ''text/plain; charset=utf-8'')],
      status = Some 401, body = ''Unauthorized'' @ [CHR 0x0A]\<rparr>"
    by (simp add: http_Error_def ex_w_def header_Set_def WriteHeader_def Write_def Let_def)
  note u = rejection_response_uniform
    [where ParseClaims = ex_ParseClaims and ParseClaims' = ex_ParseClaims and ja = ex_ja
       and w = ex_w and nextA = ex_next and nextB = ex_next and nextC = ex_next
       and nextD = ex_next, OF a1 a2 a3 a4]
  from u have u1:
    "Authenticate ex_ParseClaims ex_ja ex_next ex_w ?r1
       = Authenticate ex_ParseClaims ex_ja ex_next ex_w ?r2"
    by (rule conjunct1)
  from u have u2:
    "Authenticate ex_ParseClaims ex_ja ex_next ex_w ?r1
       = RequiresRole ex_ja ''admin'' ex_next ex_w ?r3"
    by (rule conjunct2 [THEN conjunct1])
  from u have u3:
    "RequiresRole ex_ja ''admin'' ex_next ex_w ?r3
       = RequiresRole ex_ja ''editor'' ex_next ex_w ?r4"
    by (rule conjunct2 [THEN conjunct2, THEN conjunct1])
  from u have
    "Authenticate ex_ParseClaims ex_ja ex_next ex_w ?r1
       = Returned (http_Error ex_w ''Unauthorized'' 401)"
    by (rule conjunct2 [THEN conjunct2, THEN conjunct2, THEN conjunct1])
  then have u4:
    "Authenticate ex_ParseClaims ex_ja ex_next ex_w ?r1 = Returned
         \<lparr>header = [(''X-Content-Type-Options'', ''nosniff''),
                    (''Content-Type'', ''text/plain; charset=utf-8'')],
          status = Some 401, body = ''Unauthorized'' @ [CHR 0x0A]\<rparr>"
    unfolding e .
  from a1 a2 a3 a4 u1 u2 u3 u4 show ?thesis
    by blast
qed

end
